theory Spec2Isabelle
  imports Main "HOL-Library.Char_ord" "HOL-Library.List_Lexorder" "HOL-Library.Multiset"
begin

section \<open>Remote pinning commands of go-ipfs (core/commands/pin/remotepin.go)\<close>

text \<open>
  A shallow embedding of the \<^verbatim>\<open>Run\<close> functions of the \<^verbatim>\<open>pin remote\<close> commands.
  Go strings are byte strings (\<^typ>\<open>string\<close>), compared byte by byte, shorter prefix
  first, which is the lexicographic order of \<^typ>\<open>char list\<close>. An \<^verbatim>\<open>error\<close> result that
  is \<^verbatim>\<open>nil\<close> is \<^term>\<open>None\<close>. A command that never returns (a poll loop that never
  sees a terminal status, a receive on a channel nobody writes) has the value
  \<^term>\<open>None\<close> at the outer \<^typ>\<open>'a option\<close>.
\<close>

subsection \<open>Errors\<close>

datatype error =
    External string \<comment> \<open>an error value handed back by a collaborator (repo, API, client, emitter)\<close>
  | Panic \<comment> \<open>a failed single-value type assertion \<^verbatim>\<open>x.(bool)\<close>\<close>
  | ServiceNameNotSpecified \<comment> \<open>\<^verbatim>\<open>remote pinning service name not specified\<close>\<close>
  | ServiceNotKnown \<comment> \<open>\<^verbatim>\<open>service not known\<close>\<close>
  | ExpectingOneCID \<comment> \<open>\<^verbatim>\<open>expecting one CID argument\<close>\<close>
  | FailedToQueryPin error \<comment> \<open>\<^verbatim>\<open>failed to query pin (%v)\<close>\<close>
  | FailedToPin \<comment> \<open>\<^verbatim>\<open>failed to pin\<close>\<close>
  | WaitingInterrupted \<comment> \<open>\<^verbatim>\<open>waiting for pin interrupted\<close>\<close>
  | CIDCannotBeParsed string error \<comment> \<open>\<^verbatim>\<open>CID %s cannot be parsed (%v)\<close>\<close>
  | StatusNotValid string \<comment> \<open>\<^verbatim>\<open>status %s is not valid\<close>\<close>
  | ListingRemotePinIDs error \<comment> \<open>\<^verbatim>\<open>listing remote pin IDs (%v)\<close>\<close>
  | MultiplePinsUseForce \<comment> \<open>\<^verbatim>\<open>multiple pins may be removed, use --force\<close>\<close>
  | RemovingPin string error \<comment> \<open>\<^verbatim>\<open>removing pin with request ID %s (%v)\<close>\<close>
  | ServiceNameNotGiven \<comment> \<open>\<^verbatim>\<open>service name not given\<close>\<close>
  | ServiceURLNotGiven \<comment> \<open>\<^verbatim>\<open>service url not given\<close>\<close>
  | ServiceKeyNotGiven \<comment> \<open>\<^verbatim>\<open>service key not given\<close>\<close>
  | ServiceAlreadyPresent \<comment> \<open>\<^verbatim>\<open>service already present\<close>\<close>
  | ExpectingOneArgumentName \<comment> \<open>\<^verbatim>\<open>expecting one argument: name\<close>\<close>

subsection \<open>Requests\<close>

text \<open>
  \<^verbatim>\<open>cmds.Request\<close>: the positional \<^verbatim>\<open>Arguments []string\<close> and the
  \<^verbatim>\<open>Options map[string]interface{}\<close>, whose values the commands read by type assertion.
\<close>

datatype optval = OptString string | OptStrings "string list" | OptBool bool

record Request =
  Arguments :: "string list"
  Options :: "string \<rightharpoonup> optval"

definition pinNameOptionName :: string where "pinNameOptionName = ''name''"
definition pinCIDsOptionName :: string where "pinCIDsOptionName = ''cid''"
definition pinStatusOptionName :: string where "pinStatusOptionName = ''status''"
definition pinServiceNameOptionName :: string where "pinServiceNameOptionName = ''service''"
definition pinServiceURLOptionName :: string where "pinServiceURLOptionName = ''url''"
definition pinServiceKeyOptionName :: string where "pinServiceKeyOptionName = ''key''"
definition pinBackgroundOptionName :: string where "pinBackgroundOptionName = ''background''"
definition pinForceOptionName :: string where "pinForceOptionName = ''force''"

lemmas optionNames =
  pinNameOptionName_def pinCIDsOptionName_def pinStatusOptionName_def
  pinServiceNameOptionName_def pinServiceURLOptionName_def pinServiceKeyOptionName_def
  pinBackgroundOptionName_def pinForceOptionName_def

text \<open>The two-value type assertions \<^verbatim>\<open>v, ok := req.Options[k].(T)\<close>.\<close>

fun asString :: "optval option \<Rightarrow> string option" where
  "asString (Some (OptString s)) = Some s"
| "asString _ = None"

fun asStrings :: "optval option \<Rightarrow> string list option" where
  "asStrings (Some (OptStrings ss)) = Some ss"
| "asStrings _ = None"

fun asBool :: "optval option \<Rightarrow> bool option" where
  "asBool (Some (OptBool b)) = Some b"
| "asBool _ = None"

subsection \<open>The persisted configuration\<close>

record RemotePinService =
  Name :: string
  URL :: string
  Key :: string

text \<open>A Go map may be \<^verbatim>\<open>nil\<close>: \<^term>\<open>None\<close> here.\<close>

record RemotePinServices =
  Services :: "(string \<rightharpoonup> RemotePinService) option"

record Config =
  RemotePinServices :: RemotePinServices

subsection \<open>Values of the pinning client\<close>

datatype Cid = MkCid string
datatype Multiaddr = MkMultiaddr string
datatype AddrInfo = MkAddrInfo string

fun Cid_String :: "Cid \<Rightarrow> string" where "Cid_String (MkCid s) = s"
fun Multiaddr_String :: "Multiaddr \<Rightarrow> string" where "Multiaddr_String (MkMultiaddr s) = s"

text \<open>
  Modelled from the spec: the \<^verbatim>\<open>Status\<close> type of the pinning client library, its
  constants and its \<^verbatim>\<open>String\<close> method are not under src/. The source converts a raw
  string to it (\<^verbatim>\<open>pinclient.Status(rawStatus)\<close>), so it is a string type; the statuses
  are the spec's \<^verbatim>\<open>queued, pinning, pinned, failed, unknown\<close>, and \<^verbatim>\<open>String\<close> renders the
  four proper statuses as themselves and everything else as the unknown status. The
  unknown status is taken to be the zero value of the type, the empty string; the
  properties below rest only on its being none of the four proper statuses.
\<close>

type_synonym Status = string

definition StatusUnknown :: Status where "StatusUnknown = ''''"
definition StatusQueued :: Status where "StatusQueued = ''queued''"
definition StatusPinning :: Status where "StatusPinning = ''pinning''"
definition StatusPinned :: Status where "StatusPinned = ''pinned''"
definition StatusFailed :: Status where "StatusFailed = ''failed''"

definition Status_String :: "Status \<Rightarrow> string" where
  "Status_String s =
     (if s = StatusQueued \<or> s = StatusPinning \<or> s = StatusPinned \<or> s = StatusFailed
      then s else StatusUnknown)"

lemmas statusNames =
  StatusUnknown_def StatusQueued_def StatusPinning_def StatusPinned_def StatusFailed_def

record Pin =
  GetName :: string
  GetCid :: Cid

text \<open>\<^verbatim>\<open>pinclient.PinStatusGetter\<close>, by its getters.\<close>

record PinStatus =
  GetRequestId :: string
  GetStatus :: Status
  GetPin :: Pin
  GetDelegates :: "Multiaddr list"

datatype AddOption = WithName string
datatype LsOption = FilterName string | FilterCIDs "Cid list" | FilterStatus "Status list"

record Client =
  client_url :: string
  client_key :: string

definition NewClient :: "string \<Rightarrow> string \<Rightarrow> Client" where
  "NewClient url key = \<lparr>client_url = url, client_key = key\<rparr>"

subsection \<open>Outputs\<close>

record RemotePinOutput =
  RequestID :: string
  Name :: string
  Delegates :: "string list"
  Status :: string
  Cid :: string

record PinServiceAndURL =
  Service :: string
  URL :: string

subsection \<open>Collaborators and observable behaviour\<close>

text \<open>
  What the commands consume from outside this file is a parameter of the model: one field
  per call site. \<^verbatim>\<open>c.Ls\<close> hands back an item channel and an error channel: the items
  sent before the item channel is closed, and what a receive on the error channel yields
  (\<^term>\<open>None\<close>: nothing is ever sent and the channel stays open, the receive blocks for
  ever; \<^term>\<open>Some None\<close>: a \<^verbatim>\<open>nil\<close> error or a closed channel; \<^term>\<open>Some (Some e)\<close>: the
  error \<^term>\<open>e\<close>). Calls that a command repeats (status polls, deletions, emissions)
  are indexed by how many of them came before in the invocation.
\<close>

record world =
  GetConfigRoot :: "error + string" \<comment> \<open>\<^verbatim>\<open>cmdenv.GetConfigRoot(env)\<close>\<close>
  fsrepo_Open :: "string \<Rightarrow> error option" \<comment> \<open>\<^verbatim>\<open>fsrepo.Open(cfgRoot)\<close>\<close>
  repo_Config :: "error option" \<comment> \<open>whether \<^verbatim>\<open>repo.Config()\<close> fails\<close>
  repo_SetConfig :: "Config \<Rightarrow> error option" \<comment> \<open>\<^verbatim>\<open>repo.SetConfig(cfg)\<close>\<close>
  GetApi :: "error option" \<comment> \<open>\<^verbatim>\<open>cmdenv.GetApi(env, req)\<close>\<close>
  ResolvePath :: "string \<Rightarrow> error + Cid" \<comment> \<open>\<^verbatim>\<open>api.ResolvePath(ctx, path.New(p))\<close>, to \<^verbatim>\<open>rp.Cid()\<close>\<close>
  AddrInfoFromP2pAddr :: "Multiaddr \<Rightarrow> error + AddrInfo" \<comment> \<open>\<^verbatim>\<open>peer.AddrInfoFromP2pAddr(d)\<close>\<close>
  Swarm_Connect :: "AddrInfo \<Rightarrow> error option" \<comment> \<open>\<^verbatim>\<open>api.Swarm().Connect(ctx, *p)\<close>\<close>
  cid_Decode :: "string \<Rightarrow> error + Cid" \<comment> \<open>\<^verbatim>\<open>cid.Decode(rawCID)\<close>\<close>
  client_Add :: "Client \<Rightarrow> Cid \<Rightarrow> AddOption list \<Rightarrow> error + PinStatus"
  client_GetStatusByID :: "Client \<Rightarrow> nat \<Rightarrow> string \<Rightarrow> error + PinStatus"
  client_DeleteByID :: "Client \<Rightarrow> nat \<Rightarrow> string \<Rightarrow> error option"
  client_Ls :: "Client \<Rightarrow> LsOption list \<Rightarrow> PinStatus list \<times> error option option"
  ctx_Done :: "nat \<Rightarrow> bool" \<comment> \<open>the \<^verbatim>\<open>select\<close> after poll \<open>i\<close> takes \<^verbatim>\<open>ctx.Done()\<close>\<close>
  res_Emit :: "nat \<Rightarrow> error option" \<comment> \<open>the error of the \<open>i\<close>-th \<^verbatim>\<open>res.Emit\<close>\<close>

text \<open>What an invocation does, in order: its calls to the client and the network, its log
  lines and the values it emitted.\<close>

datatype event =
    CallAdd Cid "AddOption list"
  | CallGetStatusByID string
  | CallDeleteByID string
  | CallLs "LsOption list"
  | CallConnect AddrInfo
  | LogInfo Multiaddr error \<comment> \<open>\<^verbatim>\<open>error connecting to remote pin delegate %v : %w\<close>\<close>
  | EmitPin RemotePinOutput
  | EmitService PinServiceAndURL

fun deletions :: "event list \<Rightarrow> string list" where
  "deletions [] = []"
| "deletions (CallDeleteByID rid # es) = rid # deletions es"
| "deletions (_ # es) = deletions es"

fun listings :: "event list \<Rightarrow> LsOption list list" where
  "listings [] = []"
| "listings (CallLs opts # es) = opts # listings es"
| "listings (_ # es) = listings es"

fun emittedPins :: "event list \<Rightarrow> RemotePinOutput list" where
  "emittedPins [] = []"
| "emittedPins (EmitPin r # es) = r # emittedPins es"
| "emittedPins (_ # es) = emittedPins es"

fun emittedServices :: "event list \<Rightarrow> PinServiceAndURL list" where
  "emittedServices [] = []"
| "emittedServices (EmitService r # es) = r # emittedServices es"
| "emittedServices (_ # es) = emittedServices es"

subsection \<open>The service registry\<close>

text \<open>\<^verbatim>\<open>getRemotePinService\<close> (lines 497-519), on the stored configuration.\<close>

definition getRemotePinService :: "world \<Rightarrow> Config \<Rightarrow> string \<Rightarrow> error + string \<times> string" where
  "getRemotePinService w stored name =
     (case GetConfigRoot w of Inl err \<Rightarrow> Inl err | Inr cfgRoot \<Rightarrow>
      case fsrepo_Open w cfgRoot of Some err \<Rightarrow> Inl err | None \<Rightarrow>
      case repo_Config w of Some err \<Rightarrow> Inl err | None \<Rightarrow>
      case Services (RemotePinServices stored) of None \<Rightarrow> Inl ServiceNotKnown | Some svcs \<Rightarrow>
      case svcs name of None \<Rightarrow> Inl ServiceNotKnown
      | Some service \<Rightarrow> Inr (RemotePinService.URL service, Key service))"

text \<open>\<^verbatim>\<open>getRemotePinServiceOrEnv\<close> (lines 486-495).\<close>

definition getRemotePinServiceOrEnv :: "world \<Rightarrow> Config \<Rightarrow> string \<Rightarrow> error + Client" where
  "getRemotePinServiceOrEnv w stored name =
     (if name = [] then Inl ServiceNameNotSpecified
      else case getRemotePinService w stored name of Inl err \<Rightarrow> Inl err
           | Inr (url, key) \<Rightarrow> Inr (NewClient url key))"

text \<open>
  \<^verbatim>\<open>addRemotePinServiceCmd.Run\<close> (lines 345-387): the error returned and the configuration
  stored afterwards. The three values are read from \<^verbatim>\<open>req.Options\<close>.
\<close>

definition addRemotePinServiceCmd_Run :: "world \<Rightarrow> Request \<Rightarrow> Config \<Rightarrow> error option \<times> Config" where
  "addRemotePinServiceCmd_Run w req stored =
     (case GetConfigRoot w of Inl err \<Rightarrow> (Some err, stored) | Inr cfgRoot \<Rightarrow>
      case fsrepo_Open w cfgRoot of Some err \<Rightarrow> (Some err, stored) | None \<Rightarrow>
      case asString (Options req pinServiceNameOptionName) of
        None \<Rightarrow> (Some ServiceNameNotGiven, stored) | Some name \<Rightarrow>
      case asString (Options req pinServiceURLOptionName) of
        None \<Rightarrow> (Some ServiceURLNotGiven, stored) | Some url \<Rightarrow>
      case asString (Options req pinServiceKeyOptionName) of
        None \<Rightarrow> (Some ServiceKeyNotGiven, stored) | Some key \<Rightarrow>
      case repo_Config w of Some err \<Rightarrow> (Some err, stored) | None \<Rightarrow>
      let svcs = (case Services (RemotePinServices stored) of None \<Rightarrow> Map.empty | Some m \<Rightarrow> m) in
      if svcs name \<noteq> None then (Some ServiceAlreadyPresent, stored)
      else
        let cfg = stored\<lparr>RemotePinServices := (RemotePinServices stored)\<lparr>Services :=
                    Some (svcs(name \<mapsto>
                      \<lparr>RemotePinService.Name = name, RemotePinService.URL = url, Key = key\<rparr>))\<rparr>\<rparr>
        in case repo_SetConfig w cfg of Some err \<Rightarrow> (Some err, stored)
           | None \<Rightarrow> (None, cfg))"

text \<open>\<^verbatim>\<open>rmRemotePinServiceCmd.Run\<close> (lines 400-424).\<close>

definition rmRemotePinServiceCmd_Run :: "world \<Rightarrow> Request \<Rightarrow> Config \<Rightarrow> error option \<times> Config" where
  "rmRemotePinServiceCmd_Run w req stored =
     (case GetConfigRoot w of Inl err \<Rightarrow> (Some err, stored) | Inr cfgRoot \<Rightarrow>
      case fsrepo_Open w cfgRoot of Some err \<Rightarrow> (Some err, stored) | None \<Rightarrow>
      case Arguments req of
        [name] \<Rightarrow>
          (case repo_Config w of Some err \<Rightarrow> (Some err, stored) | None \<Rightarrow>
           let cfg = (case Services (RemotePinServices stored) of None \<Rightarrow> stored
                      | Some m \<Rightarrow> stored\<lparr>RemotePinServices :=
                          (RemotePinServices stored)\<lparr>Services := Some (m(name := None))\<rparr>\<rparr>)
           in case repo_SetConfig w cfg of Some err \<Rightarrow> (Some err, stored)
              | None \<Rightarrow> (None, cfg))
      | _ \<Rightarrow> (Some ExpectingOneArgumentName, stored))"

text \<open>
  \<^verbatim>\<open>lsRemotePinServiceCmd.Run\<close> (lines 434-463). Go visits the keys of a map in an order
  of its choosing: \<open>visit\<close> is that order. \<^verbatim>\<open>sort.Sort\<close> with \<^verbatim>\<open>Less\<close> on \<^verbatim>\<open>Service\<close>
  (lines 482-484) is a sort by that key; the names are the keys of a map, so no two are
  equal and the sorted order is the only one.
\<close>

fun emitServices :: "world \<Rightarrow> nat \<Rightarrow> PinServiceAndURL list \<Rightarrow> event list \<times> error option" where
  "emitServices w i [] = ([], None)"
| "emitServices w i (r # rs) =
     (case res_Emit w i of Some err \<Rightarrow> ([], Some err)
      | None \<Rightarrow> (case emitServices w (Suc i) rs of (es, e) \<Rightarrow> (EmitService r # es, e)))"

definition rangeServices :: "(string \<rightharpoonup> RemotePinService) \<Rightarrow> string list \<Rightarrow> PinServiceAndURL list" where
  "rangeServices svcs visit =
     concat (map (\<lambda>svcName. case svcs svcName of None \<Rightarrow> []
        | Some svcConfig \<Rightarrow> [\<lparr>Service = svcName, URL = RemotePinService.URL svcConfig\<rparr>]) visit)"

definition lsRemotePinServiceCmd_Run :: "world \<Rightarrow> string list \<Rightarrow> Config \<Rightarrow> event list \<times> error option" where
  "lsRemotePinServiceCmd_Run w visit stored =
     (case GetConfigRoot w of Inl err \<Rightarrow> ([], Some err) | Inr cfgRoot \<Rightarrow>
      case fsrepo_Open w cfgRoot of Some err \<Rightarrow> ([], Some err) | None \<Rightarrow>
      case repo_Config w of Some err \<Rightarrow> ([], Some err) | None \<Rightarrow>
      case Services (RemotePinServices stored) of None \<Rightarrow> ([], None) | Some svcs \<Rightarrow>
        emitServices w 0 (sort_key Service (rangeServices svcs visit)))"

subsection \<open>Listing remote pins\<close>

text \<open>The two validation loops of \<^verbatim>\<open>lsRemote\<close>: lines 248-254 and lines 259-265.\<close>

fun decodeCIDs :: "world \<Rightarrow> string list \<Rightarrow> error + Cid list" where
  "decodeCIDs w [] = Inr []"
| "decodeCIDs w (rawCID # rest) =
     (case cid_Decode w rawCID of Inl err \<Rightarrow> Inl (CIDCannotBeParsed rawCID err)
      | Inr parsedCID \<Rightarrow>
          (case decodeCIDs w rest of Inl e \<Rightarrow> Inl e
           | Inr parsedCIDs \<Rightarrow> Inr (parsedCID # parsedCIDs)))"

fun parseStatuses :: "string list \<Rightarrow> error + Status list" where
  "parseStatuses [] = Inr []"
| "parseStatuses (rawStatus # rest) =
     (if Status_String rawStatus = StatusUnknown then Inl (StatusNotValid rawStatus)
      else (case parseStatuses rest of Inl e \<Rightarrow> Inl e
            | Inr parsedStatuses \<Rightarrow> Inr (rawStatus # parsedStatuses)))"

text \<open>
  \<^verbatim>\<open>lsRemote\<close> (lines 241-272): the events it causes, and either its error or the two
  channels of \<^verbatim>\<open>c.Ls\<close>.
\<close>

definition lsRemote ::
  "world \<Rightarrow> Request \<Rightarrow> Client \<Rightarrow> event list \<times> (error + PinStatus list \<times> error option option)" where
  "lsRemote w req c =
     (let opts1 = (case asString (Options req pinNameOptionName) of
                     Some name \<Rightarrow> [FilterName name] | None \<Rightarrow> [])
      in case (case asStrings (Options req pinCIDsOptionName) of None \<Rightarrow> Inr opts1
               | Some cidsRaw \<Rightarrow>
                   (case decodeCIDs w cidsRaw of Inl e \<Rightarrow> Inl e
                    | Inr parsedCIDs \<Rightarrow> Inr (opts1 @ [FilterCIDs parsedCIDs]))) of
           Inl e \<Rightarrow> ([], Inl e)
         | Inr opts2 \<Rightarrow>
      case (case asStrings (Options req pinStatusOptionName) of None \<Rightarrow> Inr opts2
            | Some statusRaw \<Rightarrow>
                (case parseStatuses statusRaw of Inl e \<Rightarrow> Inl e
                 | Inr parsedStatuses \<Rightarrow> Inr (opts2 @ [FilterStatus parsedStatuses]))) of
           Inl e \<Rightarrow> ([], Inl e)
         | Inr opts \<Rightarrow> ([CallLs opts], Inr (client_Ls w c opts)))"

definition multiaddrsToStrings :: "Multiaddr list \<Rightarrow> string list" where
  "multiaddrsToStrings m = map Multiaddr_String m"

text \<open>The \<^verbatim>\<open>RemotePinOutput\<close> literal of lines 149-155 and 213-219.\<close>

definition remotePinOutput :: "PinStatus \<Rightarrow> RemotePinOutput" where
  "remotePinOutput ps =
     \<lparr>RequestID = GetRequestId ps,
      Name = GetName (GetPin ps),
      Delegates = multiaddrsToStrings (GetDelegates ps),
      Status = Status_String (GetStatus ps),
      Cid = Cid_String (GetCid (GetPin ps))\<rparr>"

text \<open>The loop of lines 212-222: emit every item, return at the first \<^verbatim>\<open>Emit\<close> error.\<close>

fun emitPins :: "world \<Rightarrow> nat \<Rightarrow> PinStatus list \<Rightarrow> event list \<times> error option" where
  "emitPins w i [] = ([], None)"
| "emitPins w i (ps # rest) =
     (case res_Emit w i of Some err \<Rightarrow> ([], Some err)
      | None \<Rightarrow> (case emitPins w (Suc i) rest of (es, e) \<Rightarrow> (EmitPin (remotePinOutput ps) # es, e)))"

definition serviceOption :: "Request \<Rightarrow> string" where
  \<comment> \<open>\<^verbatim>\<open>service, _ := req.Options[pinServiceNameOptionName].(string)\<close>\<close>
  "serviceOption req =
     (case asString (Options req pinServiceNameOptionName) of Some s \<Rightarrow> s | None \<Rightarrow> [])"

text \<open>\<^verbatim>\<open>listRemotePinCmd.Run\<close> (lines 197-225).\<close>

definition listRemotePinCmd_Run :: "world \<Rightarrow> Request \<Rightarrow> Config \<Rightarrow> (event list \<times> error option) option" where
  "listRemotePinCmd_Run w req stored =
     (case getRemotePinServiceOrEnv w stored (serviceOption req) of
        Inl err \<Rightarrow> Some ([], Some err)
      | Inr c \<Rightarrow>
     (case lsRemote w req c of
        (es, Inl err) \<Rightarrow> Some (es, Some err)
      | (es, Inr (psCh, errCh)) \<Rightarrow>
     (case emitPins w 0 psCh of
        (es', Some err) \<Rightarrow> Some (es @ es', Some err)
      | (es', None) \<Rightarrow>
     (case errCh of None \<Rightarrow> None
      | Some err \<Rightarrow> Some (es @ es', err)))))"

subsection \<open>Removing remote pins\<close>

text \<open>The loop of lines 322-326.\<close>

fun deleteAll :: "world \<Rightarrow> Client \<Rightarrow> nat \<Rightarrow> string list \<Rightarrow> event list \<times> error option" where
  "deleteAll w c i [] = ([], None)"
| "deleteAll w c i (rmID # rest) =
     (case client_DeleteByID w c i rmID of
        Some err \<Rightarrow> ([CallDeleteByID rmID], Some (RemovingPin rmID err))
      | None \<Rightarrow> (case deleteAll w c (Suc i) rest of (es, e) \<Rightarrow> (CallDeleteByID rmID # es, e)))"

text \<open>
  Lines 303-320: the ids to remove. With no argument they come from the listing, and the
  force option is read only when the listing is not empty (\<^verbatim>\<open>&&\<close> evaluates its right
  side only then); with arguments, the first one is taken.
\<close>

definition rmTargets ::
  "world \<Rightarrow> Request \<Rightarrow> Client \<Rightarrow> (event list \<times> (error + string list)) option" where
  "rmTargets w req c =
     (case Arguments req of
        [] \<Rightarrow>
          (case lsRemote w req c of
             (es, Inl err) \<Rightarrow> Some (es, Inl err)
           | (es, Inr (psCh, errCh)) \<Rightarrow>
               (let rmIDs = map GetRequestId psCh in
                case errCh of None \<Rightarrow> None
                | Some (Some err) \<Rightarrow> Some (es, Inl (ListingRemotePinIDs err))
                | Some None \<Rightarrow>
                    if length rmIDs > 0 then
                      (case asBool (Options req pinForceOptionName) of
                         None \<Rightarrow> Some (es, Inl Panic)
                       | Some force \<Rightarrow>
                           if \<not> force then Some (es, Inl MultiplePinsUseForce)
                           else Some (es, Inr rmIDs))
                    else Some (es, Inr rmIDs)))
      | arg0 # _ \<Rightarrow> Some ([], Inr [arg0]))"

text \<open>\<^verbatim>\<open>rmRemotePinCmd.Run\<close> (lines 293-328).\<close>

definition rmRemotePinCmd_Run :: "world \<Rightarrow> Request \<Rightarrow> Config \<Rightarrow> (event list \<times> error option) option" where
  "rmRemotePinCmd_Run w req stored =
     (case getRemotePinServiceOrEnv w stored (serviceOption req) of
        Inl err \<Rightarrow> Some ([], Some err)
      | Inr c \<Rightarrow>
     (case rmTargets w req c of None \<Rightarrow> None
      | Some (es, Inl err) \<Rightarrow> Some (es, Some err)
      | Some (es, Inr rmIDs) \<Rightarrow>
          (case deleteAll w c 0 rmIDs of (es', e) \<Rightarrow> Some (es @ es', e))))"

subsection \<open>Adding a remote pin\<close>

text \<open>
  The loop of lines 116-125: an address that does not convert to peer information ends
  the command with that error; a failed connection is logged and the loop goes on.
\<close>

fun connectDelegates :: "world \<Rightarrow> Multiaddr list \<Rightarrow> event list \<times> error option" where
  "connectDelegates w [] = ([], None)"
| "connectDelegates w (d # ds) =
     (case AddrInfoFromP2pAddr w d of Inl err \<Rightarrow> ([], Some err)
      | Inr p \<Rightarrow>
          (case connectDelegates w ds of (es, e) \<Rightarrow>
             ((case Swarm_Connect w p of Some err \<Rightarrow> [CallConnect p, LogInfo d err]
               | None \<Rightarrow> [CallConnect p]) @ es, e)))"

text \<open>
  The poll loop of lines 128-146, entered with the status record of the submission. It
  has no bound of its own: where no poll ever sees \<^verbatim>\<open>pinned\<close> or \<^verbatim>\<open>failed\<close>, no query
  fails and the context is never done, its value is \<^term>\<open>None\<close>. Each poll asks for the
  request id of the record the poll before it returned.
\<close>

partial_function (option) pollStatus ::
  "world \<Rightarrow> Client \<Rightarrow> nat \<Rightarrow> PinStatus \<Rightarrow> (event list \<times> (error + PinStatus)) option" where
  "pollStatus w c i ps =
     (case client_GetStatusByID w c i (GetRequestId ps) of
        Inl err \<Rightarrow> Some ([CallGetStatusByID (GetRequestId ps)], Inl (FailedToQueryPin err))
      | Inr ps' \<Rightarrow>
          if GetStatus ps' = StatusPinned
          then Some ([CallGetStatusByID (GetRequestId ps)], Inr ps')
          else if GetStatus ps' = StatusFailed
          then Some ([CallGetStatusByID (GetRequestId ps)], Inl FailedToPin)
          else if ctx_Done w i
          then Some ([CallGetStatusByID (GetRequestId ps)], Inl WaitingInterrupted)
          else Option.bind (pollStatus w c (Suc i) ps')
                 (\<lambda>(es, r). Some (CallGetStatusByID (GetRequestId ps) # es, r)))"

declare pollStatus.simps [code]

text \<open>Lines 127-147: poll unless the background option is set.\<close>

definition awaitPin ::
  "world \<Rightarrow> Client \<Rightarrow> bool \<Rightarrow> PinStatus \<Rightarrow> (event list \<times> (error + PinStatus)) option" where
  "awaitPin w c background ps =
     (if \<not> background then pollStatus w c 0 ps else Some ([], Inr ps))"

text \<open>\<^verbatim>\<open>addRemotePinCmd.Run\<close> (lines 83-156).\<close>

definition addRemotePinCmd_Run :: "world \<Rightarrow> Request \<Rightarrow> Config \<Rightarrow> (event list \<times> error option) option" where
  "addRemotePinCmd_Run w req stored =
     (let opts = (case asString (Options req pinNameOptionName) of
                    Some name \<Rightarrow> [WithName name] | None \<Rightarrow> [])
      in case GetApi w of Some err \<Rightarrow> Some ([], Some err) | None \<Rightarrow>
      (case Arguments req of
         [arg0] \<Rightarrow>
           (case ResolvePath w arg0 of Inl err \<Rightarrow> Some ([], Some err) | Inr rp \<Rightarrow>
            case getRemotePinServiceOrEnv w stored (serviceOption req) of
              Inl err \<Rightarrow> Some ([], Some err) | Inr c \<Rightarrow>
            case client_Add w c rp opts of
              Inl err \<Rightarrow> Some ([CallAdd rp opts], Some err) | Inr ps \<Rightarrow>
            case connectDelegates w (GetDelegates ps) of
              (es1, Some err) \<Rightarrow> Some (CallAdd rp opts # es1, Some err)
            | (es1, None) \<Rightarrow>
            case asBool (Options req pinBackgroundOptionName) of
              None \<Rightarrow> Some (CallAdd rp opts # es1, Some Panic) | Some background \<Rightarrow>
            case awaitPin w c background ps of None \<Rightarrow> None
            | Some (es2, Inl err) \<Rightarrow> Some (CallAdd rp opts # es1 @ es2, Some err)
            | Some (es2, Inr ps') \<Rightarrow>
                (case res_Emit w 0 of
                   Some err \<Rightarrow> Some (CallAdd rp opts # es1 @ es2, Some err)
                 | None \<Rightarrow>
                     Some (CallAdd rp opts # es1 @ es2 @ [EmitPin (remotePinOutput ps')], None)))
       | _ \<Rightarrow> Some ([], Some ExpectingOneCID)))"

subsection \<open>Notions used to state the properties\<close>

text \<open>The statuses that \<^const>\<open>Status_String\<close> renders as themselves.\<close>

definition properStatuses :: "Status list" where
  "properStatuses = [StatusQueued, StatusPinning, StatusPinned, StatusFailed]"

text \<open>
  The record the poll loop holds when it begins poll \<open>n\<close>, if it gets that far: every
  earlier poll answered with a status that is neither \<^verbatim>\<open>pinned\<close> nor \<^verbatim>\<open>failed\<close>, and
  the context was not done after it.
\<close>

primrec pollState :: "world \<Rightarrow> Client \<Rightarrow> PinStatus \<Rightarrow> nat \<Rightarrow> PinStatus option" where
  "pollState w c ps 0 = Some ps"
| "pollState w c ps (Suc n) =
     (case pollState w c ps n of None \<Rightarrow> None
      | Some p \<Rightarrow>
          (case client_GetStatusByID w c n (GetRequestId p) of Inl err \<Rightarrow> None
           | Inr p' \<Rightarrow>
               if GetStatus p' = StatusPinned \<or> GetStatus p' = StatusFailed \<or> ctx_Done w n
               then None else Some p'))"

text \<open>The services of a configuration, none when the map is \<^verbatim>\<open>nil\<close>.\<close>

definition registered :: "Config \<Rightarrow> string \<rightharpoonup> RemotePinService" where
  "registered stored =
     (case Services (RemotePinServices stored) of None \<Rightarrow> Map.empty | Some svcs \<Rightarrow> svcs)"

text \<open>Every credential key replaced by what \<open>g\<close> makes of the entry.\<close>

definition rekey :: "(RemotePinService \<Rightarrow> string) \<Rightarrow> Config \<Rightarrow> Config" where
  "rekey g stored =
     stored\<lparr>RemotePinServices := (RemotePinServices stored)\<lparr>Services :=
       map_option (\<lambda>svcs name. map_option (\<lambda>svc. svc\<lparr>Key := g svc\<rparr>) (svcs name))
         (Services (RemotePinServices stored))\<rparr>\<rparr>"

text \<open>The request has no CID filter, or every entry of it decodes.\<close>

definition cidFilterParses :: "world \<Rightarrow> Request \<Rightarrow> bool" where
  "cidFilterParses w req =
     (case asStrings (Options req pinCIDsOptionName) of None \<Rightarrow> True
      | Some cidsRaw \<Rightarrow> \<not> isl (decodeCIDs w cidsRaw))"

text \<open>What the caller of a command sees: the records emitted and the error returned.\<close>

definition outcome ::
  "(event list \<times> error option) option \<Rightarrow> (RemotePinOutput list \<times> error option) option" where
  "outcome r = map_option (\<lambda>(evs, e). (emittedPins evs, e)) r"

text \<open>
  The outcome of \<^const>\<open>addRemotePinCmd_Run\<close> once the submission has answered with \<open>ps\<close>
  (lines 116-155), used to relate two runs.
\<close>

definition afterAdd ::
  "world \<Rightarrow> Request \<Rightarrow> Client \<Rightarrow> PinStatus \<Rightarrow> (RemotePinOutput list \<times> error option) option" where
  "afterAdd w req c ps =
     (case snd (connectDelegates w (GetDelegates ps)) of
        Some err \<Rightarrow> Some ([], Some err)
      | None \<Rightarrow>
     (case asBool (Options req pinBackgroundOptionName) of
        None \<Rightarrow> Some ([], Some Panic)
      | Some background \<Rightarrow>
     (case awaitPin w c background ps of None \<Rightarrow> None
      | Some (es2, Inl err) \<Rightarrow> Some ([], Some err)
      | Some (es2, Inr ps') \<Rightarrow>
          (case res_Emit w 0 of Some err \<Rightarrow> Some ([], Some err)
           | None \<Rightarrow> Some ([remotePinOutput ps'], None)))))"

subsection \<open>Sample collaborators\<close>

text \<open>
  Concrete values on which the properties are evaluated: a world in which every
  collaborator succeeds (the service answers \<^verbatim>\<open>pinning\<close> to the first two polls and
  \<^verbatim>\<open>pinned\<close> from the third on, and lists nothing), and two configurations.
\<close>

definition samplePin :: "string \<Rightarrow> Status \<Rightarrow> PinStatus" where
  "samplePin rid st =
     \<lparr>GetRequestId = rid, GetStatus = st,
      GetPin = \<lparr>GetName = ''backup'', GetCid = MkCid ''QmSample''\<rparr>,
      GetDelegates = []\<rparr>"

definition okWorld :: world where
  "okWorld =
     \<lparr>GetConfigRoot = Inr ''/repo'',
      fsrepo_Open = (\<lambda>root. None),
      repo_Config = None,
      repo_SetConfig = (\<lambda>cfg. None),
      GetApi = None,
      ResolvePath = (\<lambda>p. Inr (MkCid p)),
      AddrInfoFromP2pAddr = (\<lambda>d. Inr (MkAddrInfo (Multiaddr_String d))),
      Swarm_Connect = (\<lambda>p. None),
      cid_Decode = (\<lambda>raw. Inr (MkCid raw)),
      client_Add = (\<lambda>c cid opts. Inr (samplePin ''req-1'' StatusQueued)),
      client_GetStatusByID =
        (\<lambda>c i rid. Inr (samplePin rid (if i < 2 then StatusPinning else StatusPinned))),
      client_DeleteByID = (\<lambda>c i rid. None),
      client_Ls = (\<lambda>c opts. ([], Some None)),
      ctx_Done = (\<lambda>i. False),
      res_Emit = (\<lambda>i. None)\<rparr>"

definition emptyConfig :: Config where
  "emptyConfig = \<lparr>RemotePinServices = \<lparr>Services = None\<rparr>\<rparr>"

definition sampleConfig :: Config where
  "sampleConfig =
     \<lparr>RemotePinServices = \<lparr>Services = Some
        [''svc'' \<mapsto> \<lparr>RemotePinService.Name = ''svc'',
                      RemotePinService.URL = ''https://pin.example'', Key = ''secret''\<rparr>]\<rparr>\<rparr>"

definition sampleClient :: Client where
  "sampleClient = NewClient ''https://pin.example'' ''secret''"

definition threeServices :: Config where
  "threeServices =
     \<lparr>RemotePinServices = \<lparr>Services = Some
        [''b'' \<mapsto> \<lparr>RemotePinService.Name = ''b'',
                    RemotePinService.URL = ''https://b.example'', Key = ''kb''\<rparr>,
         ''a'' \<mapsto> \<lparr>RemotePinService.Name = ''a'',
                    RemotePinService.URL = ''https://a.example'', Key = ''ka''\<rparr>,
         ''C'' \<mapsto> \<lparr>RemotePinService.Name = ''C'',
                    RemotePinService.URL = ''https://c.example'', Key = ''kc''\<rparr>]\<rparr>\<rparr>"

text \<open>A service whose answer to a submission names one delegate.\<close>

definition delegateWorld :: world where
  "delegateWorld =
     okWorld\<lparr>client_Add := (\<lambda>c cid opts.
       Inr ((samplePin ''req-1'' StatusQueued)
              \<lparr>GetDelegates := [MkMultiaddr ''/ip4/203.0.113.7/tcp/4001/p2p/QmPeer'']\<rparr>))\<rparr>"

definition addRequest :: "bool \<Rightarrow> Request" where
  "addRequest background =
     \<lparr>Arguments = [''/ipfs/QmSample''],
      Options = [pinServiceNameOptionName \<mapsto> OptString ''svc'',
                 pinBackgroundOptionName \<mapsto> OptBool background]\<rparr>"

definition listRequest :: "string list \<Rightarrow> Request" where
  "listRequest statuses =
     \<lparr>Arguments = [],
      Options = [pinServiceNameOptionName \<mapsto> OptString ''svc'',
                 pinStatusOptionName \<mapsto> OptStrings statuses]\<rparr>"

definition plainRequest :: Request where
  "plainRequest =
     \<lparr>Arguments = [], Options = [pinServiceNameOptionName \<mapsto> OptString ''svc'']\<rparr>"

section \<open>Properties\<close>

subsection \<open>Helper facts\<close>

lemma sample_client:
  "getRemotePinServiceOrEnv okWorld sampleConfig ''svc'' = Inr sampleClient"
  by (simp add: getRemotePinServiceOrEnv_def getRemotePinService_def okWorld_def
      sampleConfig_def sampleClient_def)

lemma lsRemote_cases:
  "(\<exists>e. lsRemote w req c = ([], Inl e)) \<or>
   (\<exists>opts. lsRemote w req c = ([CallLs opts], Inr (client_Ls w c opts)))"
  by (simp add: lsRemote_def Let_def split: option.splits sum.splits)

lemma lsRemote_no_deletions: "deletions (fst (lsRemote w req c)) = []"
  using lsRemote_cases[of w req c] by auto

lemma emittedPins_append: "emittedPins (xs @ ys) = emittedPins xs @ emittedPins ys"
  by (induction xs rule: emittedPins.induct) auto

subsection \<open>The service registry\<close>

text \<open>
  C1 (adding a service and resolving it gives back the url and key that were added).
  The command declares name, url and key as its three positional arguments and declares
  no option, but its \<^verbatim>\<open>Run\<close> reads the three from \<^verbatim>\<open>req.Options\<close>. On a request that
  carries the triple as its arguments the command therefore fails, whatever the
  collaborators do, and stores nothing: in the sample world the error is
  \<^verbatim>\<open>service name not given\<close>, and resolving the name afterwards fails with
  \<^verbatim>\<open>service not known\<close>.
\<close>

theorem service_add_ignores_arguments:
  "fst (addRemotePinServiceCmd_Run w \<lparr>Arguments = [name, url, key], Options = Map.empty\<rparr> stored)
     \<noteq> None
   \<and> snd (addRemotePinServiceCmd_Run w \<lparr>Arguments = [name, url, key], Options = Map.empty\<rparr> stored)
     = stored
   \<and> addRemotePinServiceCmd_Run okWorld
       \<lparr>Arguments = [''svc'', ''https://pin.example'', ''secret''], Options = Map.empty\<rparr>
       emptyConfig
     = (Some ServiceNameNotGiven, emptyConfig)
   \<and> getRemotePinService okWorld emptyConfig ''svc'' = Inl ServiceNotKnown"
  by (simp add: addRemotePinServiceCmd_Run_def getRemotePinService_def okWorld_def
      emptyConfig_def split: sum.splits option.splits)

text \<open>
  What does hold of the registry: when the three values reach the command the way it
  reads them, as string options, the name is not registered yet and the repository
  collaborators succeed, the command succeeds and resolving the name gives back the url
  and the key.
\<close>

theorem service_add_resolve_by_options:
  assumes "asString (Options req pinServiceNameOptionName) = Some name"
    and "asString (Options req pinServiceURLOptionName) = Some url"
    and "asString (Options req pinServiceKeyOptionName) = Some key"
    and "registered stored name = None"
    and "GetConfigRoot w = Inr root" and "fsrepo_Open w root = None" and "repo_Config w = None"
    and "\<forall>cfg. repo_SetConfig w cfg = None"
  shows "fst (addRemotePinServiceCmd_Run w req stored) = None
     \<and> getRemotePinService w (snd (addRemotePinServiceCmd_Run w req stored)) name = Inr (url, key)"
  using assms
  by (auto simp add: addRemotePinServiceCmd_Run_def getRemotePinService_def registered_def
      Let_def split: option.splits)

theorem service_add_resolve_by_options_witness:
  "fst (addRemotePinServiceCmd_Run okWorld
         \<lparr>Arguments = [],
          Options = [pinServiceNameOptionName \<mapsto> OptString ''svc'',
                     pinServiceURLOptionName \<mapsto> OptString ''https://pin.example'',
                     pinServiceKeyOptionName \<mapsto> OptString ''secret'']\<rparr> emptyConfig) = None
   \<and> getRemotePinService okWorld
        (snd (addRemotePinServiceCmd_Run okWorld
         \<lparr>Arguments = [],
          Options = [pinServiceNameOptionName \<mapsto> OptString ''svc'',
                     pinServiceURLOptionName \<mapsto> OptString ''https://pin.example'',
                     pinServiceKeyOptionName \<mapsto> OptString ''secret'']\<rparr> emptyConfig)) ''svc''
      = Inr (''https://pin.example'', ''secret'')"
proof -
  let ?req = "\<lparr>Arguments = [],
          Options = [pinServiceNameOptionName \<mapsto> OptString ''svc'',
                     pinServiceURLOptionName \<mapsto> OptString ''https://pin.example'',
                     pinServiceKeyOptionName \<mapsto> OptString ''secret'']\<rparr>"
  have n: "asString (Options ?req pinServiceNameOptionName) = Some ''svc''"
    by (simp add: optionNames)
  have u: "asString (Options ?req pinServiceURLOptionName) = Some ''https://pin.example''"
    by (simp add: optionNames)
  have k: "asString (Options ?req pinServiceKeyOptionName) = Some ''secret''"
    by (simp add: optionNames)
  have r: "registered emptyConfig ''svc'' = None" by (simp add: registered_def emptyConfig_def)
  have e1: "GetConfigRoot okWorld = Inr ''/repo''" by (simp add: okWorld_def)
  have e2: "fsrepo_Open okWorld ''/repo'' = None" by (simp add: okWorld_def)
  have e3: "repo_Config okWorld = None" by (simp add: okWorld_def)
  have e4: "\<forall>cfg. repo_SetConfig okWorld cfg = None" by (simp add: okWorld_def)
  show ?thesis using service_add_resolve_by_options[OF n u k r e1 e2 e3 e4] .
qed

text \<open>Facts about the listing of services.\<close>

lemma emitServices_ok:
  "(\<And>i. res_Emit w i = None) \<Longrightarrow> emitServices w i rs = (map EmitService rs, None)"
  by (induction rs arbitrary: i) auto

lemma emittedServices_map: "emittedServices (map EmitService rs) = rs"
  by (induction rs) auto

lemma rangeServices_map:
  "set visit \<subseteq> dom svcs \<Longrightarrow>
   rangeServices svcs visit =
     map (\<lambda>n. \<lparr>Service = n, URL = RemotePinService.URL (the (svcs n))\<rparr>) visit"
  unfolding rangeServices_def by (induction visit) auto

lemma rangeServices_rekey:
  "rangeServices (\<lambda>name. map_option (\<lambda>svc. svc\<lparr>Key := g svc\<rparr>) (svcs name)) visit
   = rangeServices svcs visit"
  unfolding rangeServices_def by (induction visit) (auto split: option.splits)

text \<open>
  \<^verbatim>\<open>sort.Sort\<close> promises a sorted rearrangement and no stability. Where no two entries
  have the same name there is one such rearrangement, the one \<^const>\<open>sort_key\<close> computes.
\<close>

lemma sort_by_service_unique:
  assumes "distinct (map Service rs)" "mset ys = mset rs" "sorted (map Service ys)"
  shows "ys = sort_key Service rs"
proof (rule map_sorted_distinct_set_unique[where f = Service])
  have s: "set ys = set rs" using assms(2) by (rule mset_eq_setD)
  show "inj_on Service (set ys \<union> set (sort_key Service rs))"
    using assms(1) s by (simp add: distinct_map)
  show "sorted (map Service ys)" by (rule assms(3))
  have "mset (map Service ys) = mset (map Service rs)" using assms(2) by simp
  then show "distinct (map Service ys)" using assms(1) by (metis mset_eq_imp_distinct_iff)
  show "sorted (map Service (sort_key Service rs))" by simp
  have "mset (map Service (sort_key Service rs)) = mset (map Service rs)" by simp
  then show "distinct (map Service (sort_key Service rs))"
    using assms(1) by (metis mset_eq_imp_distinct_iff)
  show "set ys = set (sort_key Service rs)" using s by simp
qed

lemma service_ls_sample:
  "lsRemotePinServiceCmd_Run okWorld [''b'', ''a'', ''C''] threeServices
   = ([EmitService \<lparr>Service = ''C'', URL = ''https://c.example''\<rparr>,
       EmitService \<lparr>Service = ''a'', URL = ''https://a.example''\<rparr>,
       EmitService \<lparr>Service = ''b'', URL = ''https://b.example''\<rparr>], None)"
  by (simp add: lsRemotePinServiceCmd_Run_def okWorld_def threeServices_def rangeServices_def
      less_eq_char_def less_char_def)

text \<open>
  C7 (the listing of services emits one (name, url) pair per registered service, sorted
  by name in ascending byte order, and no credential key). Whatever order \<open>visit\<close> the map
  is walked in, when the repository opens and every emission succeeds, the command
  returns no error, the names emitted are the registered names in ascending order with
  no repetition, each emitted url is the url stored under the emitted name, and the
  run is the same when every key of the registry is replaced by anything else.
\<close>

theorem service_ls_sorted_without_keys:
  assumes env: "GetConfigRoot w = Inr root" "fsrepo_Open w root = None" "repo_Config w = None"
    and emit: "\<forall>i. res_Emit w i = None"
    and visit: "distinct visit" "set visit = dom (registered stored)"
  shows "snd (lsRemotePinServiceCmd_Run w visit stored) = None
    \<and> map Service (emittedServices (fst (lsRemotePinServiceCmd_Run w visit stored)))
        = sorted_list_of_set (dom (registered stored))
    \<and> sorted (map Service (emittedServices (fst (lsRemotePinServiceCmd_Run w visit stored))))
    \<and> distinct (map Service (emittedServices (fst (lsRemotePinServiceCmd_Run w visit stored))))
    \<and> (\<forall>r \<in> set (emittedServices (fst (lsRemotePinServiceCmd_Run w visit stored))).
          \<exists>svc. registered stored (Service r) = Some svc \<and> URL r = RemotePinService.URL svc)
    \<and> lsRemotePinServiceCmd_Run w visit (rekey g stored)
        = lsRemotePinServiceCmd_Run w visit stored"
proof (cases "Services (RemotePinServices stored)")
  case None
  then show ?thesis using env visit
    by (simp add: lsRemotePinServiceCmd_Run_def registered_def rekey_def
        split: sum.splits option.splits)
next
  case (Some svcs)
  let ?rs = "rangeServices svcs visit"
  let ?out = "sort_key Service ?rs"
  have reg: "registered stored = svcs" using Some by (simp add: registered_def)
  have run: "lsRemotePinServiceCmd_Run w visit stored = (map EmitService ?out, None)"
    using env Some emit by (simp add: lsRemotePinServiceCmd_Run_def emitServices_ok)
  have rs: "?rs = map (\<lambda>n. \<lparr>Service = n, URL = RemotePinService.URL (the (svcs n))\<rparr>) visit"
    using visit(2) reg by (simp add: rangeServices_map)
  have names_rs: "map Service ?rs = visit" unfolding rs by (simp add: comp_def)
  have m: "mset (map Service ?out) = mset visit"
    using names_rs by (metis mset_map mset_sort)
  have d: "distinct (map Service ?out)" using m visit(1) by (metis mset_eq_imp_distinct_iff)
  have s: "sorted (map Service ?out)" by simp
  have st: "set (map Service ?out) = dom svcs" using m visit(2) reg by (metis mset_eq_setD)
  have fin: "finite (dom svcs)" using st by (metis List.finite_set)
  have names: "map Service ?out = sorted_list_of_set (dom svcs)"
    using s d st fin by (metis sorted_list_of_set.idem_if_sorted_distinct)
  have urls: "\<forall>r \<in> set ?out. \<exists>svc. svcs (Service r) = Some svc \<and> URL r = RemotePinService.URL svc"
  proof
    fix r assume "r \<in> set ?out"
    then have "r \<in> set ?rs" by simp
    then obtain n where n: "n \<in> set visit"
      "r = \<lparr>Service = n, URL = RemotePinService.URL (the (svcs n))\<rparr>"
      unfolding rs by auto
    then have "n \<in> dom svcs" using visit(2) reg by simp
    then show "\<exists>svc. svcs (Service r) = Some svc \<and> URL r = RemotePinService.URL svc"
      using n(2) by auto
  qed
  have rk: "lsRemotePinServiceCmd_Run w visit (rekey g stored)
      = lsRemotePinServiceCmd_Run w visit stored"
    using Some by (simp add: lsRemotePinServiceCmd_Run_def rekey_def rangeServices_rekey
        split: sum.splits option.splits)
  show ?thesis
    using names s d urls rk by (simp add: run emittedServices_map reg)
qed

theorem service_ls_sorted_without_keys_witness:
  "lsRemotePinServiceCmd_Run okWorld [''b'', ''a'', ''C''] threeServices
   = ([EmitService \<lparr>Service = ''C'', URL = ''https://c.example''\<rparr>,
       EmitService \<lparr>Service = ''a'', URL = ''https://a.example''\<rparr>,
       EmitService \<lparr>Service = ''b'', URL = ''https://b.example''\<rparr>], None)
   \<and> sorted_list_of_set (dom (registered threeServices)) = [''C'', ''a'', ''b'']
   \<and> lsRemotePinServiceCmd_Run okWorld [''b'', ''a'', ''C'']
        (rekey (\<lambda>svc. ''redacted'') threeServices)
     = lsRemotePinServiceCmd_Run okWorld [''b'', ''a'', ''C''] threeServices"
proof -
  have e1: "GetConfigRoot okWorld = Inr ''/repo''" by (simp add: okWorld_def)
  have e2: "fsrepo_Open okWorld ''/repo'' = None" by (simp add: okWorld_def)
  have e3: "repo_Config okWorld = None" by (simp add: okWorld_def)
  have e4: "\<forall>i. res_Emit okWorld i = None" by (simp add: okWorld_def)
  have v1: "distinct [''b'', ''a'', ''C'']" by simp
  have v2: "set [''b'', ''a'', ''C''] = dom (registered threeServices)"
    by (auto simp add: registered_def threeServices_def)
  show ?thesis
    using service_ls_sorted_without_keys[OF e1 e2 e3 e4 v1 v2, of "\<lambda>svc. ''redacted''"]
      service_ls_sample
    by simp
qed

subsection \<open>Removing remote pins\<close>

text \<open>
  C2 (with no explicit id and the force flag unset, removal is refused exactly when the
  listing yields more than one match; a refusal deletes nothing). The gate of line 315
  is \<^verbatim>\<open>len(rmIDs) > 0\<close>: a listing with exactly one match and no error is refused as
  well, with \<^verbatim>\<open>multiple pins may be removed, use --force\<close>, and nothing is deleted.
\<close>

theorem rm_single_match_refused:
  "rmRemotePinCmd_Run
     (okWorld\<lparr>client_Ls := (\<lambda>c opts. ([samplePin ''req-1'' StatusPinned], Some None))\<rparr>)
     \<lparr>Arguments = [],
      Options = [pinServiceNameOptionName \<mapsto> OptString ''svc'',
                 pinForceOptionName \<mapsto> OptBool False]\<rparr>
     sampleConfig
   = Some ([CallLs []], Some MultiplePinsUseForce)
   \<and> deletions [CallLs []] = []"
  by (simp add: rmRemotePinCmd_Run_def rmTargets_def lsRemote_def serviceOption_def
      getRemotePinServiceOrEnv_def getRemotePinService_def okWorld_def sampleConfig_def
      optionNames samplePin_def)

text \<open>
  The gate as the code has it: with no explicit id, the force option set to false and a
  listing that ends without error, the removal is refused exactly when the listing is
  not empty, and a refused removal has called nothing but the listing.
\<close>

theorem rm_gate_nonempty_listing:
  assumes "Arguments req = []"
    and "asBool (Options req pinForceOptionName) = Some False"
    and "lsRemote w req c = (es, Inr (psCh, Some None))"
  shows "(rmTargets w req c = Some (es, Inl MultiplePinsUseForce) \<longleftrightarrow> psCh \<noteq> [])
    \<and> (psCh = [] \<longrightarrow> rmTargets w req c = Some (es, Inr []))
    \<and> deletions es = []"
  using assms lsRemote_no_deletions[of w req c]
  by (auto simp add: rmTargets_def)

theorem rm_gate_nonempty_listing_witness:
  "rmTargets (okWorld\<lparr>client_Ls := (\<lambda>c opts. ([samplePin ''req-1'' StatusPinned], Some None))\<rparr>)
     \<lparr>Arguments = [], Options = [pinForceOptionName \<mapsto> OptBool False]\<rparr> sampleClient
   = Some ([CallLs []], Inl MultiplePinsUseForce)"
proof -
  let ?w = "okWorld\<lparr>client_Ls := (\<lambda>c opts. ([samplePin ''req-1'' StatusPinned], Some None))\<rparr>"
  let ?req = "\<lparr>Arguments = [], Options = [pinForceOptionName \<mapsto> OptBool False]\<rparr>"
  have a: "Arguments ?req = []" by simp
  have f: "asBool (Options ?req pinForceOptionName) = Some False" by simp
  have l: "lsRemote ?w ?req sampleClient
      = ([CallLs []], Inr ([samplePin ''req-1'' StatusPinned], Some None))"
    by (simp add: lsRemote_def optionNames)
  show ?thesis using rm_gate_nonempty_listing[OF a f l] by simp
qed

text \<open>
  C3 (with explicit request ids, exactly those ids are deleted, in the order given).
  Line 319 takes \<^verbatim>\<open>req.Arguments[0]\<close> alone, although the argument is declared variadic:
  of two or more ids only the first is a target, and a run on two ids in the sample world
  deletes the first and reports success.
\<close>

theorem rm_explicit_ids_first_only:
  "rmTargets w \<lparr>Arguments = rid1 # rid2 # rest, Options = opts\<rparr> c = Some ([], Inr [rid1])
   \<and> rmRemotePinCmd_Run okWorld
       \<lparr>Arguments = [''req-1'', ''req-2''],
        Options = [pinServiceNameOptionName \<mapsto> OptString ''svc'']\<rparr>
       sampleConfig
     = Some ([CallDeleteByID ''req-1''], None)"
  by (simp add: rmRemotePinCmd_Run_def rmTargets_def serviceOption_def
      getRemotePinServiceOrEnv_def getRemotePinService_def okWorld_def sampleConfig_def
      optionNames)

text \<open>
  C9 (with no explicit id, a listing that yields no match and no error makes the removal
  succeed, whatever the force option holds, and nothing is deleted). The force option is
  not read on this path, so nothing is assumed about it.
\<close>

theorem rm_no_match_succeeds:
  assumes "Arguments req = []"
    and "getRemotePinServiceOrEnv w stored (serviceOption req) = Inr c"
    and "lsRemote w req c = (es, Inr ([], Some None))"
  shows "rmRemotePinCmd_Run w req stored = Some (es, None) \<and> deletions es = []"
  using assms lsRemote_no_deletions[of w req c]
  by (simp add: rmRemotePinCmd_Run_def rmTargets_def)

theorem rm_no_match_succeeds_witness:
  "rmRemotePinCmd_Run okWorld plainRequest sampleConfig = Some ([CallLs []], None)
   \<and> deletions [CallLs []] = []"
proof -
  have a: "Arguments plainRequest = []" by (simp add: plainRequest_def)
  have b: "getRemotePinServiceOrEnv okWorld sampleConfig (serviceOption plainRequest)
      = Inr sampleClient"
    by (simp add: serviceOption_def plainRequest_def sample_client)
  have c: "lsRemote okWorld plainRequest sampleClient = ([CallLs []], Inr ([], Some None))"
    by (simp add: lsRemote_def okWorld_def plainRequest_def optionNames)
  show ?thesis using rm_no_match_succeeds[OF a b c] by simp
qed

subsection \<open>Validation of the status filter\<close>

lemma Status_String_unknown_iff:
  "Status_String s = StatusUnknown \<longleftrightarrow> s \<notin> set properStatuses"
  by (auto simp add: Status_String_def properStatuses_def statusNames)

text \<open>The loop of lines 259-265 stops at the first token that is not a proper status.\<close>

lemma parseStatuses_find:
  "parseStatuses raw =
     (case find (\<lambda>s. s \<notin> set properStatuses) raw of
        Some tok \<Rightarrow> Inl (StatusNotValid tok) | None \<Rightarrow> Inr raw)"
  by (induction raw) (auto simp add: Status_String_unknown_iff split: option.splits)

lemma parseStatuses_proper:
  "parseStatuses raw = Inr ss \<Longrightarrow> ss = raw \<and> set raw \<subseteq> set properStatuses"
  by (auto simp add: parseStatuses_find find_None_iff split: option.splits)

lemma lsRemote_bad_status:
  assumes "asStrings (Options req pinStatusOptionName) = Some statusRaw"
    and "find (\<lambda>s. s \<notin> set properStatuses) statusRaw = Some tok"
  shows "\<exists>e. lsRemote w req c = ([], Inl e)"
    and "cidFilterParses w req \<Longrightarrow> lsRemote w req c = ([], Inl (StatusNotValid tok))"
  using assms
  by (auto simp add: lsRemote_def Let_def parseStatuses_find cidFilterParses_def
      split: option.splits sum.splits)

lemma lsRemote_filter_proper:
  assumes "lsRemote w req c = (es, r)" "CallLs opts \<in> set es" "FilterStatus ss \<in> set opts"
  shows "set ss \<subseteq> set properStatuses"
  using assms
  by (auto simp add: lsRemote_def Let_def split: option.splits sum.splits
      dest!: parseStatuses_proper)

lemma list_fails_when_lsRemote_fails:
  assumes "\<And>c. \<exists>e. lsRemote w req c = ([], Inl e)"
  shows "\<exists>e. listRemotePinCmd_Run w req stored = Some ([], Some e)"
proof (cases "getRemotePinServiceOrEnv w stored (serviceOption req)")
  case (Inl e)
  then show ?thesis by (simp add: listRemotePinCmd_Run_def)
next
  case (Inr c)
  then show ?thesis using assms[of c] by (auto simp add: listRemotePinCmd_Run_def)
qed

lemma rm_fails_when_lsRemote_fails:
  assumes "\<And>c. \<exists>e. lsRemote w req c = ([], Inl e)" and "Arguments req = []"
  shows "\<exists>e. rmRemotePinCmd_Run w req stored = Some ([], Some e)"
proof (cases "getRemotePinServiceOrEnv w stored (serviceOption req)")
  case (Inl e)
  then show ?thesis by (simp add: rmRemotePinCmd_Run_def)
next
  case (Inr c)
  then show ?thesis using assms(1)[of c] assms(2)
    by (auto simp add: rmRemotePinCmd_Run_def rmTargets_def)
qed

text \<open>
  C6 (a status filter with a token outside the status enum makes list, and rm without
  explicit ids, fail with an error naming the token, and the remote listing is not
  called). As stated it fails where an earlier check fails first, although the status
  filter holds \<^verbatim>\<open>bogus\<close>: an entry of the CID filter that does not parse is the one
  reported, and so is a service name that is not given.
\<close>

theorem invalid_status_behind_unparsable_cid:
  "listRemotePinCmd_Run (okWorld\<lparr>cid_Decode := (\<lambda>raw. Inl (External ''invalid cid''))\<rparr>)
     \<lparr>Arguments = [],
      Options = [pinServiceNameOptionName \<mapsto> OptString ''svc'',
                 pinCIDsOptionName \<mapsto> OptStrings [''zz''],
                 pinStatusOptionName \<mapsto> OptStrings [''bogus'']]\<rparr>
     sampleConfig
   = Some ([], Some (CIDCannotBeParsed ''zz'' (External ''invalid cid'')))
   \<and> listRemotePinCmd_Run okWorld
       \<lparr>Arguments = [], Options = [pinStatusOptionName \<mapsto> OptStrings [''bogus'']]\<rparr>
       sampleConfig
     = Some ([], Some ServiceNameNotSpecified)"
  by (simp add: listRemotePinCmd_Run_def lsRemote_def serviceOption_def
      getRemotePinServiceOrEnv_def getRemotePinService_def okWorld_def sampleConfig_def
      optionNames NewClient_def)

text \<open>
  C6 as amended: when the status filter holds a token that is not a proper status (any
  token outside the enum is one), \<open>tok\<close> being the first such token, \<^verbatim>\<open>lsRemote\<close>, list
  and rm without explicit ids all fail having called nothing, the listing included; and
  when the service resolves and the CID filter is absent or parses, the error is
  \<^verbatim>\<open>status tok is not valid\<close>.
\<close>

theorem invalid_status_rejected_before_listing:
  assumes st: "asStrings (Options req pinStatusOptionName) = Some statusRaw"
    and bad: "find (\<lambda>s. s \<notin> set properStatuses) statusRaw = Some tok"
  shows "(\<exists>e. lsRemote w req c = ([], Inl e))
    \<and> (cidFilterParses w req \<longrightarrow> lsRemote w req c = ([], Inl (StatusNotValid tok)))
    \<and> (\<exists>e. listRemotePinCmd_Run w req stored = Some ([], Some e))
    \<and> (Arguments req = [] \<longrightarrow> (\<exists>e. rmRemotePinCmd_Run w req stored = Some ([], Some e)))
    \<and> (cidFilterParses w req \<and> getRemotePinServiceOrEnv w stored (serviceOption req) = Inr c
         \<longrightarrow> listRemotePinCmd_Run w req stored = Some ([], Some (StatusNotValid tok))
           \<and> (Arguments req = [] \<longrightarrow>
                rmRemotePinCmd_Run w req stored = Some ([], Some (StatusNotValid tok))))"
proof -
  have a: "\<And>c'. \<exists>e. lsRemote w req c' = ([], Inl e)"
    using lsRemote_bad_status(1)[OF st bad] by blast
  have b: "cidFilterParses w req \<Longrightarrow> lsRemote w req c = ([], Inl (StatusNotValid tok))"
    using lsRemote_bad_status(2)[OF st bad] by blast
  have l: "\<exists>e. listRemotePinCmd_Run w req stored = Some ([], Some e)"
    using list_fails_when_lsRemote_fails a by blast
  have r: "Arguments req = [] \<Longrightarrow> \<exists>e. rmRemotePinCmd_Run w req stored = Some ([], Some e)"
    using rm_fails_when_lsRemote_fails a by blast
  have l2: "cidFilterParses w req \<Longrightarrow>
      getRemotePinServiceOrEnv w stored (serviceOption req) = Inr c \<Longrightarrow>
      listRemotePinCmd_Run w req stored = Some ([], Some (StatusNotValid tok))"
    using b by (simp add: listRemotePinCmd_Run_def)
  have r2: "cidFilterParses w req \<Longrightarrow>
      getRemotePinServiceOrEnv w stored (serviceOption req) = Inr c \<Longrightarrow>
      Arguments req = [] \<Longrightarrow>
      rmRemotePinCmd_Run w req stored = Some ([], Some (StatusNotValid tok))"
    using b by (simp add: rmRemotePinCmd_Run_def rmTargets_def)
  show ?thesis using a[of c] b l r l2 r2 by blast
qed

theorem invalid_status_rejected_before_listing_witness:
  "lsRemote okWorld (listRequest [''pinned'', ''bogus'', ''nope'']) sampleClient
     = ([], Inl (StatusNotValid ''bogus''))
   \<and> listRemotePinCmd_Run okWorld (listRequest [''pinned'', ''bogus'', ''nope'']) sampleConfig
     = Some ([], Some (StatusNotValid ''bogus''))
   \<and> rmRemotePinCmd_Run okWorld (listRequest [''pinned'', ''bogus'', ''nope'']) sampleConfig
     = Some ([], Some (StatusNotValid ''bogus''))"
proof -
  let ?req = "listRequest [''pinned'', ''bogus'', ''nope'']"
  have st: "asStrings (Options ?req pinStatusOptionName) = Some [''pinned'', ''bogus'', ''nope'']"
    by (simp add: listRequest_def optionNames)
  have bad: "find (\<lambda>s. s \<notin> set properStatuses) [''pinned'', ''bogus'', ''nope''] = Some ''bogus''"
    by (simp add: properStatuses_def statusNames)
  have cp: "cidFilterParses okWorld ?req"
    by (simp add: cidFilterParses_def listRequest_def optionNames)
  have sv: "getRemotePinServiceOrEnv okWorld sampleConfig (serviceOption ?req) = Inr sampleClient"
    by (simp add: serviceOption_def listRequest_def optionNames sample_client)
  have ar: "Arguments ?req = []" by (simp add: listRequest_def)
  show ?thesis
    using invalid_status_rejected_before_listing[OF st bad, of okWorld sampleClient sampleConfig]
      cp sv ar
    by simp
qed

text \<open>
  C10 (the token \<^verbatim>\<open>unknown\<close> is rejected like any unrecognised token, so that no status
  filter can select pins of unknown status). \<^verbatim>\<open>String\<close> renders \<^verbatim>\<open>unknown\<close> as it renders
  \<^verbatim>\<open>bogus\<close>, as the unknown status, which is what line 261 tests. A status filter that
  holds \<^verbatim>\<open>unknown\<close>, or the unknown status itself, makes \<^verbatim>\<open>lsRemote\<close>, list and rm
  without explicit ids fail having called nothing, with \<^verbatim>\<open>status unknown is not valid\<close>
  when \<^verbatim>\<open>unknown\<close> is the first token that is not a proper status and the CID filter
  parses. And whenever \<^verbatim>\<open>lsRemote\<close> does call the listing, the status filter it passes
  holds neither \<^verbatim>\<open>unknown\<close> nor any status rendered as the unknown one.
\<close>

theorem unknown_status_token_rejected:
  assumes st: "asStrings (Options req pinStatusOptionName) = Some statusRaw"
    and unk: "''unknown'' \<in> set statusRaw \<or> StatusUnknown \<in> set statusRaw"
  shows "Status_String ''unknown'' = StatusUnknown
    \<and> Status_String ''unknown'' = Status_String ''bogus''
    \<and> (\<exists>e. lsRemote w req c = ([], Inl e))
    \<and> (\<exists>e. listRemotePinCmd_Run w req stored = Some ([], Some e))
    \<and> (Arguments req = [] \<longrightarrow> (\<exists>e. rmRemotePinCmd_Run w req stored = Some ([], Some e)))
    \<and> (find (\<lambda>s. s \<notin> set properStatuses) statusRaw = Some ''unknown'' \<and> cidFilterParses w req
         \<longrightarrow> lsRemote w req c = ([], Inl (StatusNotValid ''unknown'')))
    \<and> (\<forall>w' req' c' es r opts ss.
          lsRemote w' req' c' = (es, r) \<and> CallLs opts \<in> set es \<and> FilterStatus ss \<in> set opts
          \<longrightarrow> ''unknown'' \<notin> set ss \<and> StatusUnknown \<notin> set ss
            \<and> (\<forall>s \<in> set ss. Status_String s \<noteq> StatusUnknown))"
proof -
  have u: "''unknown'' \<notin> set properStatuses" "StatusUnknown \<notin> set properStatuses"
    by (simp_all add: properStatuses_def statusNames)
  then have "\<exists>s \<in> set statusRaw. s \<notin> set properStatuses" using unk by blast
  then obtain tok where tok: "find (\<lambda>s. s \<notin> set properStatuses) statusRaw = Some tok"
    by (cases "find (\<lambda>s. s \<notin> set properStatuses) statusRaw") (auto simp add: find_None_iff)
  have a: "\<And>c'. \<exists>e. lsRemote w req c' = ([], Inl e)"
    using lsRemote_bad_status(1)[OF st tok] by blast
  have l: "\<exists>e. listRemotePinCmd_Run w req stored = Some ([], Some e)"
    using list_fails_when_lsRemote_fails a by blast
  have r: "Arguments req = [] \<Longrightarrow> \<exists>e. rmRemotePinCmd_Run w req stored = Some ([], Some e)"
    using rm_fails_when_lsRemote_fails a by blast
  have f: "find (\<lambda>s. s \<notin> set properStatuses) statusRaw = Some ''unknown'' \<Longrightarrow>
      cidFilterParses w req \<Longrightarrow> lsRemote w req c = ([], Inl (StatusNotValid ''unknown''))"
    using lsRemote_bad_status(2)[OF st] by blast
  have g: "\<And>w' req' c' es r opts ss. lsRemote w' req' c' = (es, r) \<Longrightarrow>
      CallLs opts \<in> set es \<Longrightarrow> FilterStatus ss \<in> set opts \<Longrightarrow>
      ''unknown'' \<notin> set ss \<and> StatusUnknown \<notin> set ss
        \<and> (\<forall>s \<in> set ss. Status_String s \<noteq> StatusUnknown)"
    using lsRemote_filter_proper u by (meson Status_String_unknown_iff subsetD)
  have s1: "Status_String ''unknown'' = StatusUnknown" "Status_String ''bogus'' = StatusUnknown"
    by (simp_all add: Status_String_def statusNames)
  show ?thesis using s1 a[of c] l r f g by (simp; blast)
qed

theorem unknown_status_token_rejected_witness:
  "lsRemote okWorld (listRequest [''pinned'', ''unknown'']) sampleClient
     = ([], Inl (StatusNotValid ''unknown''))
   \<and> (\<exists>e. listRemotePinCmd_Run okWorld (listRequest [''pinned'', ''unknown'']) sampleConfig
          = Some ([], Some e))
   \<and> (\<exists>e. rmRemotePinCmd_Run okWorld (listRequest [''pinned'', ''unknown'']) sampleConfig
          = Some ([], Some e))"
proof -
  let ?req = "listRequest [''pinned'', ''unknown'']"
  have st: "asStrings (Options ?req pinStatusOptionName) = Some [''pinned'', ''unknown'']"
    by (simp add: listRequest_def optionNames)
  have unk: "''unknown'' \<in> set [''pinned'', ''unknown''] \<or> StatusUnknown \<in> set [''pinned'', ''unknown'']"
    by simp
  have first: "find (\<lambda>s. s \<notin> set properStatuses) [''pinned'', ''unknown''] = Some ''unknown''"
    by (simp add: properStatuses_def statusNames)
  have cp: "cidFilterParses okWorld ?req"
    by (simp add: cidFilterParses_def listRequest_def optionNames)
  have ar: "Arguments ?req = []" by (simp add: listRequest_def)
  show ?thesis
    using unknown_status_token_rejected[OF st unk, of okWorld sampleClient sampleConfig]
      first cp ar
    by blast
qed

subsection \<open>Listing remote pins\<close>

text \<open>
  C8 (list reports success only once the error signal has been received, and then
  exactly when it carries no error, also when no item was emitted). With the service
  resolved and the listing started: a successful return means the error channel yielded
  \<^verbatim>\<open>nil\<close>; while nothing arrives on the error channel the command does not return
  success; and once every item is emitted the command returns what the error channel
  yields, or never returns when it yields nothing.
\<close>

theorem list_success_only_after_error_signal:
  assumes "getRemotePinServiceOrEnv w stored (serviceOption req) = Inr c"
    and "lsRemote w req c = (es, Inr (psCh, errCh))"
  shows "(listRemotePinCmd_Run w req stored = Some (evs, None) \<longrightarrow> errCh = Some None)
    \<and> (errCh = None \<longrightarrow> (\<forall>evs. listRemotePinCmd_Run w req stored \<noteq> Some (evs, None)))
    \<and> (snd (emitPins w 0 psCh) = None \<longrightarrow>
         listRemotePinCmd_Run w req stored =
           map_option (\<lambda>err. (es @ fst (emitPins w 0 psCh), err)) errCh)
    \<and> (psCh = [] \<longrightarrow> listRemotePinCmd_Run w req stored = map_option (\<lambda>err. (es, err)) errCh)"
  using assms
  by (auto simp add: listRemotePinCmd_Run_def split: prod.splits option.splits)

theorem list_success_only_after_error_signal_witness:
  "listRemotePinCmd_Run
     (okWorld\<lparr>client_Ls := (\<lambda>c opts. ([], Some (Some (External ''service unavailable''))))\<rparr>)
     plainRequest sampleConfig
   = Some ([CallLs []], Some (External ''service unavailable''))
   \<and> listRemotePinCmd_Run (okWorld\<lparr>client_Ls := (\<lambda>c opts. ([], None))\<rparr>)
       plainRequest sampleConfig
     = None"
proof -
  let ?w1 = "okWorld\<lparr>client_Ls := (\<lambda>c opts. ([], Some (Some (External ''service unavailable''))))\<rparr>"
  let ?w2 = "okWorld\<lparr>client_Ls := (\<lambda>c opts. ([], None))\<rparr>"
  have s1: "getRemotePinServiceOrEnv ?w1 sampleConfig (serviceOption plainRequest) = Inr sampleClient"
    by (simp add: serviceOption_def getRemotePinServiceOrEnv_def getRemotePinService_def
        okWorld_def sampleConfig_def sampleClient_def plainRequest_def)
  have s2: "getRemotePinServiceOrEnv ?w2 sampleConfig (serviceOption plainRequest) = Inr sampleClient"
    by (simp add: serviceOption_def getRemotePinServiceOrEnv_def getRemotePinService_def
        okWorld_def sampleConfig_def sampleClient_def plainRequest_def)
  have l1: "lsRemote ?w1 plainRequest sampleClient
      = ([CallLs []], Inr ([], Some (Some (External ''service unavailable''))))"
    by (simp add: lsRemote_def plainRequest_def optionNames)
  have l2: "lsRemote ?w2 plainRequest sampleClient = ([CallLs []], Inr ([], None))"
    by (simp add: lsRemote_def plainRequest_def optionNames)
  show ?thesis
    using list_success_only_after_error_signal[OF s1 l1]
      list_success_only_after_error_signal[OF s2 l2]
    by simp
qed

subsection \<open>Adding a remote pin\<close>

lemma connectDelegates_no_emit: "emittedPins (fst (connectDelegates w ds)) = []"
  by (induction ds) (auto split: sum.splits option.splits prod.splits)

lemma connectDelegates_error_cong:
  "AddrInfoFromP2pAddr w' = AddrInfoFromP2pAddr w \<Longrightarrow>
   snd (connectDelegates w' ds) = snd (connectDelegates w ds)"
  by (induction ds) (auto split: sum.splits prod.splits)

lemma connectDelegates_ok_iff:
  "snd (connectDelegates w ds) = None \<longleftrightarrow> list_all (\<lambda>d. \<not> isl (AddrInfoFromP2pAddr w d)) ds"
  by (induction ds) (auto split: sum.splits prod.splits)

text \<open>Partial correctness of the poll loop, by the induction rule of its definition.\<close>

lemma pollStatus_result_pinned:
  assumes "pollStatus w c i ps = Some r"
  shows "\<forall>es q. r = (es, Inr q) \<longrightarrow> GetStatus q = StatusPinned"
  by (rule pollStatus.raw_induct
        [where P = "\<lambda>w c i ps r. \<forall>es q. r = (es, Inr q) \<longrightarrow> GetStatus q = StatusPinned",
         OF _ assms])
     (auto split: sum.splits if_splits prod.splits simp add: Option.bind_eq_Some_conv)

lemma pollStatus_success_pinned:
  "pollStatus w c i ps = Some (es, Inr q) \<Longrightarrow> GetStatus q = StatusPinned"
  using pollStatus_result_pinned by blast

lemma pollStatus_no_emit:
  assumes "pollStatus w c i ps = Some r"
  shows "emittedPins (fst r) = []"
  by (rule pollStatus.raw_induct
        [where P = "\<lambda>w c i ps r. emittedPins (fst r) = []", OF _ assms])
     (auto split: sum.splits if_splits prod.splits simp add: Option.bind_eq_Some_conv)

lemma awaitPin_no_emit: "awaitPin w c b ps = Some (es, r) \<Longrightarrow> emittedPins es = []"
  using pollStatus_no_emit[of w c 0 ps "(es, r)"]
  by (auto simp add: awaitPin_def split: if_splits)

lemma awaitPin_sync_pinned:
  "awaitPin w c False ps = Some (es, Inr q) \<Longrightarrow> GetStatus q = StatusPinned"
  using pollStatus_success_pinned[of w c 0 ps es q] by (simp add: awaitPin_def)

text \<open>The loop reads two collaborators only.\<close>

lemma pollStatus_cong_Some:
  assumes "pollStatus w c i ps = Some r"
  shows "\<forall>w'. client_GetStatusByID w' = client_GetStatusByID w \<and> ctx_Done w' = ctx_Done w
           \<longrightarrow> pollStatus w' c i ps = Some r"
proof (rule pollStatus.raw_induct
        [where P = "\<lambda>w c i ps r. \<forall>w'. client_GetStatusByID w' = client_GetStatusByID w
             \<and> ctx_Done w' = ctx_Done w \<longrightarrow> pollStatus w' c i ps = Some r", OF _ assms],
       intro allI impI, goal_cases)
  case (1 poll w c i ps r w')
  then show ?case
    by (subst pollStatus.simps)
       (auto split: sum.splits if_splits prod.splits simp add: Option.bind_eq_Some_conv)
qed

lemma pollStatus_cong:
  assumes "client_GetStatusByID w' = client_GetStatusByID w" "ctx_Done w' = ctx_Done w"
  shows "pollStatus w' c i ps = pollStatus w c i ps"
proof (cases "pollStatus w c i ps")
  case (Some r)
  then show ?thesis using pollStatus_cong_Some[OF Some] assms by simp
next
  case None
  show ?thesis
  proof (cases "pollStatus w' c i ps")
    case (Some r)
    then show ?thesis using pollStatus_cong_Some[OF Some] assms by simp
  qed (simp add: None)
qed

text \<open>Progress of the poll loop: one poll with a status that is not terminal, then many.\<close>

lemma pollStatus_step:
  assumes "client_GetStatusByID w c i (GetRequestId ps) = Inr ps'"
    and "GetStatus ps' \<noteq> StatusPinned" "GetStatus ps' \<noteq> StatusFailed" "\<not> ctx_Done w i"
  shows "map_option snd (pollStatus w c i ps) = map_option snd (pollStatus w c (Suc i) ps')"
  using assms
  by (subst pollStatus.simps) (cases "pollStatus w c (Suc i) ps'"; simp split: prod.splits)

lemma pollState_reaches:
  "pollState w c ps n = Some p \<Longrightarrow>
   map_option snd (pollStatus w c 0 ps) = map_option snd (pollStatus w c n p)"
proof (induction n arbitrary: p)
  case 0
  then show ?case by simp
next
  case (Suc n)
  from Suc.prems obtain q where q: "pollState w c ps n = Some q"
    and step: "client_GetStatusByID w c n (GetRequestId q) = Inr p"
      "GetStatus p \<noteq> StatusPinned" "GetStatus p \<noteq> StatusFailed" "\<not> ctx_Done w n"
    by (auto split: option.splits sum.splits if_splits)
  show ?case using Suc.IH[OF q] pollStatus_step[OF step] by simp
qed

lemma pollStatus_failed_now:
  assumes "client_GetStatusByID w c n (GetRequestId p) = Inr p'" "GetStatus p' = StatusFailed"
  shows "map_option snd (pollStatus w c n p) = Some (Inl FailedToPin)"
  using assms by (subst pollStatus.simps) (simp add: statusNames)

lemma pollStatus_pinned_now:
  assumes "client_GetStatusByID w c n (GetRequestId p) = Inr p'" "GetStatus p' = StatusPinned"
  shows "map_option snd (pollStatus w c n p) = Some (Inr p')"
  using assms by (subst pollStatus.simps) simp

text \<open>The run of the command, split at the answer to the submission.\<close>

lemma add_outcome_after:
  assumes "GetApi w = None" "Arguments req = [arg0]" "ResolvePath w arg0 = Inr rp"
    and "getRemotePinServiceOrEnv w stored (serviceOption req) = Inr c"
    and "client_Add w c rp (case asString (Options req pinNameOptionName) of
                    Some name \<Rightarrow> [WithName name] | None \<Rightarrow> []) = Inr ps"
  shows "outcome (addRemotePinCmd_Run w req stored) = afterAdd w req c ps"
proof -
  obtain es1 e1 where cd: "connectDelegates w (GetDelegates ps) = (es1, e1)"
    by (cases "connectDelegates w (GetDelegates ps)")
  have ne: "emittedPins es1 = []"
    using connectDelegates_no_emit[of w "GetDelegates ps"] cd by simp
  show ?thesis
  proof (cases e1)
    case (Some err)
    then show ?thesis using assms cd ne
      by (simp add: addRemotePinCmd_Run_def afterAdd_def outcome_def Let_def)
  next
    case None
    note e1 = None
    show ?thesis
    proof (cases "asBool (Options req pinBackgroundOptionName)")
      case None
      then show ?thesis using assms cd ne e1
        by (simp add: addRemotePinCmd_Run_def afterAdd_def outcome_def Let_def)
    next
      case (Some background)
      note bg = Some
      show ?thesis
      proof (cases "awaitPin w c background ps")
        case None
        then show ?thesis using assms cd ne e1 bg
          by (simp add: addRemotePinCmd_Run_def afterAdd_def outcome_def Let_def)
      next
        case (Some r)
        obtain es2 res where r: "r = (es2, res)" by (cases r)
        have ne2: "emittedPins es2 = []" using awaitPin_no_emit Some r by blast
        show ?thesis
        proof (cases res)
          case (Inl err)
          then show ?thesis using assms cd ne e1 bg Some r ne2
            by (simp add: addRemotePinCmd_Run_def afterAdd_def outcome_def Let_def
                emittedPins_append)
        next
          case (Inr ps')
          then show ?thesis using assms cd ne e1 bg Some r ne2
            by (cases "res_Emit w 0")
               (simp_all add: addRemotePinCmd_Run_def afterAdd_def outcome_def Let_def
                  emittedPins_append)
        qed
      qed
    qed
  qed
qed

lemma add_outcome_before:
  assumes "GetApi w' = GetApi w" "ResolvePath w' = ResolvePath w" "client_Add w' = client_Add w"
    and "\<And>n. getRemotePinServiceOrEnv w' stored n = getRemotePinServiceOrEnv w stored n"
    and "\<And>c ps. afterAdd w' req c ps = afterAdd w req c ps"
  shows "outcome (addRemotePinCmd_Run w' req stored) = outcome (addRemotePinCmd_Run w req stored)"
proof (cases "GetApi w")
  case (Some e)
  then show ?thesis using assms(1) by (simp add: addRemotePinCmd_Run_def outcome_def)
next
  case None
  note api = None
  show ?thesis
  proof (cases "\<exists>arg0. Arguments req = [arg0]")
    case False
    then show ?thesis using api assms(1)
      by (cases "Arguments req"; cases "tl (Arguments req)")
         (simp_all add: addRemotePinCmd_Run_def outcome_def)
  next
    case True
    then obtain arg0 where args: "Arguments req = [arg0]" by blast
    show ?thesis
    proof (cases "ResolvePath w arg0")
      case (Inl e)
      then show ?thesis using api args assms(1,2)
        by (simp add: addRemotePinCmd_Run_def outcome_def)
    next
      case (Inr rp)
      note rp = Inr
      show ?thesis
      proof (cases "getRemotePinServiceOrEnv w stored (serviceOption req)")
        case (Inl e)
        then show ?thesis using api args rp assms(1,2,4)
          by (simp add: addRemotePinCmd_Run_def outcome_def)
      next
        case (Inr c)
        note c = Inr
        let ?opts = "case asString (Options req pinNameOptionName) of
                    Some name \<Rightarrow> [WithName name] | None \<Rightarrow> []"
        show ?thesis
        proof (cases "client_Add w c rp ?opts")
          case (Inl e)
          then show ?thesis using api args rp c assms(1,2,3,4)
            by (simp add: addRemotePinCmd_Run_def outcome_def Let_def)
        next
          case (Inr ps)
          have l: "outcome (addRemotePinCmd_Run w req stored) = afterAdd w req c ps"
            using add_outcome_after[OF api args rp c Inr] .
          have r: "outcome (addRemotePinCmd_Run w' req stored) = afterAdd w' req c ps"
            using add_outcome_after[of w' req arg0 rp stored c ps] api args rp c Inr
              assms(1,2,3,4)
            by simp
          show ?thesis using l r assms(5) by simp
        qed
      qed
    qed
  qed
qed

lemma add_sync_emits_pinned:
  assumes "asBool (Options req pinBackgroundOptionName) = Some False"
    and "addRemotePinCmd_Run w req stored = Some (evs, None)"
  shows "\<exists>q. emittedPins evs = [remotePinOutput q] \<and> GetStatus q = StatusPinned"
proof -
  have o: "outcome (addRemotePinCmd_Run w req stored) = Some (emittedPins evs, None)"
    using assms(2) by (simp add: outcome_def)
  have api: "GetApi w = None"
    using assms(2) by (cases "GetApi w") (simp_all add: addRemotePinCmd_Run_def)
  obtain arg0 where args: "Arguments req = [arg0]"
    using assms(2) api
    by (cases "Arguments req"; cases "tl (Arguments req)")
       (simp_all add: addRemotePinCmd_Run_def)
  obtain rp where rp: "ResolvePath w arg0 = Inr rp"
    using assms(2) api args
    by (cases "ResolvePath w arg0") (simp_all add: addRemotePinCmd_Run_def)
  obtain c where c: "getRemotePinServiceOrEnv w stored (serviceOption req) = Inr c"
    using assms(2) api args rp
    by (cases "getRemotePinServiceOrEnv w stored (serviceOption req)")
       (simp_all add: addRemotePinCmd_Run_def)
  obtain ps where ps: "client_Add w c rp (case asString (Options req pinNameOptionName) of
                    Some name \<Rightarrow> [WithName name] | None \<Rightarrow> []) = Inr ps"
    using assms(2) api args rp c
    by (cases "client_Add w c rp (case asString (Options req pinNameOptionName) of
                    Some name \<Rightarrow> [WithName name] | None \<Rightarrow> [])")
       (simp_all add: addRemotePinCmd_Run_def Let_def)
  have "afterAdd w req c ps = Some (emittedPins evs, None)"
    using add_outcome_after[OF api args rp c ps] o by simp
  then obtain es q where q: "awaitPin w c False ps = Some (es, Inr q)"
    "emittedPins evs = [remotePinOutput q]"
    using assms(1)
    by (auto simp add: afterAdd_def split: option.splits sum.splits prod.splits)
  then show ?thesis using awaitPin_sync_pinned by blast
qed

text \<open>
  C4 (no failure in handling the delegates of a submission, be it a failed connection or
  an address that cannot be processed, makes add fail). As stated it fails on the code:
  line 119 returns the error of an address that does not convert to peer information, and
  add ends with it, having emitted nothing.
\<close>

theorem add_unconvertible_delegate_aborts:
  "addRemotePinCmd_Run
     (delegateWorld\<lparr>AddrInfoFromP2pAddr := (\<lambda>d. Inl (External ''invalid p2p multiaddr''))\<rparr>)
     (addRequest True) sampleConfig
   = Some ([CallAdd (MkCid ''/ipfs/QmSample'') []], Some (External ''invalid p2p multiaddr''))"
  by (simp add: addRemotePinCmd_Run_def addRequest_def delegateWorld_def okWorld_def
      sampleConfig_def serviceOption_def getRemotePinServiceOrEnv_def getRemotePinService_def
      optionNames samplePin_def)

text \<open>
  C4 as amended: no failed connection to a delegate makes add fail. Whatever the
  connection attempts return, the records emitted and the error returned are the same
  (also whether the command returns at all); and the delegate loop ends with an error
  exactly when some address does not convert to peer information.
\<close>

theorem add_connect_failure_not_fatal:
  "outcome (addRemotePinCmd_Run (w\<lparr>Swarm_Connect := f\<rparr>) req stored)
     = outcome (addRemotePinCmd_Run w req stored)
   \<and> (snd (connectDelegates w ds) = None
        \<longleftrightarrow> list_all (\<lambda>d. \<not> isl (AddrInfoFromP2pAddr w d)) ds)"
proof
  let ?w = "w\<lparr>Swarm_Connect := f\<rparr>"
  show "outcome (addRemotePinCmd_Run ?w req stored) = outcome (addRemotePinCmd_Run w req stored)"
  proof (rule add_outcome_before)
    show "GetApi ?w = GetApi w" by simp
    show "ResolvePath ?w = ResolvePath w" by simp
    show "client_Add ?w = client_Add w" by simp
    show "\<And>n. getRemotePinServiceOrEnv ?w stored n = getRemotePinServiceOrEnv w stored n"
      by (simp add: getRemotePinServiceOrEnv_def getRemotePinService_def
          split: sum.splits option.splits)
    have a: "\<And>c b ps. awaitPin ?w c b ps = awaitPin w c b ps"
      using pollStatus_cong[of ?w w] by (simp add: awaitPin_def)
    have d: "\<And>ds. snd (connectDelegates ?w ds) = snd (connectDelegates w ds)"
      by (rule connectDelegates_error_cong) simp
    show "\<And>c ps. afterAdd ?w req c ps = afterAdd w req c ps"
      by (simp add: afterAdd_def a d split: option.splits sum.splits prod.splits)
  qed
  show "snd (connectDelegates w ds) = None
        \<longleftrightarrow> list_all (\<lambda>d. \<not> isl (AddrInfoFromP2pAddr w d)) ds"
    by (rule connectDelegates_ok_iff)
qed

theorem add_connect_failure_not_fatal_witness:
  "outcome (addRemotePinCmd_Run
      (delegateWorld\<lparr>Swarm_Connect := (\<lambda>p. Some (External ''dial failed''))\<rparr>)
      (addRequest True) sampleConfig)
   = Some ([\<lparr>RequestID = ''req-1'', Name = ''backup'',
            Delegates = [''/ip4/203.0.113.7/tcp/4001/p2p/QmPeer''],
            Status = ''queued'', Cid = ''QmSample''\<rparr>], None)"
proof -
  have "outcome (addRemotePinCmd_Run delegateWorld (addRequest True) sampleConfig)
   = Some ([\<lparr>RequestID = ''req-1'', Name = ''backup'',
            Delegates = [''/ip4/203.0.113.7/tcp/4001/p2p/QmPeer''],
            Status = ''queued'', Cid = ''QmSample''\<rparr>], None)"
    by (simp add: outcome_def addRemotePinCmd_Run_def addRequest_def delegateWorld_def
        okWorld_def sampleConfig_def serviceOption_def getRemotePinServiceOrEnv_def
        getRemotePinService_def optionNames samplePin_def awaitPin_def remotePinOutput_def
        multiaddrsToStrings_def Status_String_def statusNames)
  then show ?thesis
    using add_connect_failure_not_fatal
      [where w = delegateWorld and f = "\<lambda>p. Some (External ''dial failed'')"
         and req = "addRequest True" and stored = sampleConfig]
    by simp
qed

text \<open>
  C5 (a synchronous add returns a success record only when the last status observed is
  \<^verbatim>\<open>pinned\<close>, and fails with \<^verbatim>\<open>failed to pin\<close> when the status observed is \<^verbatim>\<open>failed\<close>).
  Let the loop reach poll \<open>n\<close> holding \<open>p\<close>, and let that poll answer \<open>p'\<close>. If \<open>p'\<close> is
  failed the wait returns, with \<^verbatim>\<open>failed to pin\<close>; if \<open>p'\<close> is pinned the wait returns,
  with \<open>p'\<close>. Every record the wait returns is pinned, and a synchronous add that returns
  no error has emitted exactly one record, made from a pinned status.
\<close>

theorem sync_add_returns_on_terminal_status:
  assumes reach: "pollState w c ps n = Some p"
    and obs: "client_GetStatusByID w c n (GetRequestId p) = Inr p'"
  shows "(GetStatus p' = StatusFailed \<longrightarrow>
           (\<exists>es. awaitPin w c False ps = Some (es, Inl FailedToPin)))
    \<and> (GetStatus p' = StatusPinned \<longrightarrow> (\<exists>es. awaitPin w c False ps = Some (es, Inr p')))
    \<and> (\<forall>es q. awaitPin w c False ps = Some (es, Inr q) \<longrightarrow>
          GetStatus q = StatusPinned \<and> Status (remotePinOutput q) = ''pinned'')
    \<and> (\<forall>req stored evs. asBool (Options req pinBackgroundOptionName) = Some False
          \<and> addRemotePinCmd_Run w req stored = Some (evs, None) \<longrightarrow>
          (\<exists>q. emittedPins evs = [remotePinOutput q] \<and> GetStatus q = StatusPinned
             \<and> Status (remotePinOutput q) = ''pinned''))"
proof -
  have f: "GetStatus p' = StatusFailed \<Longrightarrow>
      \<exists>es. awaitPin w c False ps = Some (es, Inl FailedToPin)"
    using pollState_reaches[OF reach] pollStatus_failed_now[OF obs]
    by (auto simp add: awaitPin_def)
  have g: "GetStatus p' = StatusPinned \<Longrightarrow> \<exists>es. awaitPin w c False ps = Some (es, Inr p')"
    using pollState_reaches[OF reach] pollStatus_pinned_now[OF obs]
    by (auto simp add: awaitPin_def)
  have s: "\<And>q. GetStatus q = StatusPinned \<Longrightarrow> Status (remotePinOutput q) = ''pinned''"
    by (simp add: remotePinOutput_def Status_String_def statusNames)
  have h: "\<And>es q. awaitPin w c False ps = Some (es, Inr q) \<Longrightarrow>
          GetStatus q = StatusPinned \<and> Status (remotePinOutput q) = ''pinned''"
    using awaitPin_sync_pinned s by blast
  have k: "\<And>req stored evs. asBool (Options req pinBackgroundOptionName) = Some False \<Longrightarrow>
      addRemotePinCmd_Run w req stored = Some (evs, None) \<Longrightarrow>
      \<exists>q. emittedPins evs = [remotePinOutput q] \<and> GetStatus q = StatusPinned
         \<and> Status (remotePinOutput q) = ''pinned''"
    using add_sync_emits_pinned s by blast
  show ?thesis using f g h k by blast
qed

theorem sync_add_returns_on_terminal_status_witness:
  "(\<exists>es. awaitPin okWorld sampleClient False (samplePin ''req-1'' StatusQueued)
          = Some (es, Inr (samplePin ''req-1'' StatusPinned)))
   \<and> (\<exists>es. awaitPin
          (okWorld\<lparr>client_GetStatusByID := (\<lambda>c i rid.
             Inr (samplePin rid (if i < 1 then StatusQueued else StatusFailed)))\<rparr>)
          sampleClient False (samplePin ''req-1'' StatusQueued)
          = Some (es, Inl FailedToPin))"
proof -
  let ?ps = "samplePin ''req-1'' StatusQueued"
  let ?w = "okWorld\<lparr>client_GetStatusByID := (\<lambda>c i rid.
             Inr (samplePin rid (if i < 1 then StatusQueued else StatusFailed)))\<rparr>"
  have r1: "pollState okWorld sampleClient ?ps 2 = Some (samplePin ''req-1'' StatusPinning)"
    by (simp add: numeral_2_eq_2 okWorld_def samplePin_def statusNames)
  have o1: "client_GetStatusByID okWorld sampleClient 2
      (GetRequestId (samplePin ''req-1'' StatusPinning)) = Inr (samplePin ''req-1'' StatusPinned)"
    by (simp add: okWorld_def samplePin_def)
  have p1: "GetStatus (samplePin ''req-1'' StatusPinned) = StatusPinned"
    by (simp add: samplePin_def)
  have r2: "pollState ?w sampleClient ?ps 1 = Some (samplePin ''req-1'' StatusQueued)"
    by (simp add: okWorld_def samplePin_def statusNames)
  have o2: "client_GetStatusByID ?w sampleClient 1
      (GetRequestId (samplePin ''req-1'' StatusQueued)) = Inr (samplePin ''req-1'' StatusFailed)"
    by (simp add: samplePin_def)
  have p2: "GetStatus (samplePin ''req-1'' StatusFailed) = StatusFailed"
    by (simp add: samplePin_def)
  show ?thesis
    using sync_add_returns_on_terminal_status[OF r1 o1]
      sync_add_returns_on_terminal_status[OF r2 o2] p1 p2
    by blast
qed

end
